theory Spec2Isabelle
  imports Main "HOL-Library.Sublist"
begin

section \<open>Python strings and \<open>str.replace\<close>\<close>

text \<open>
  The script \<^verbatim>\<open>update_tokens_table.py\<close> reads one file into \<^verbatim>\<open>content\<close>, calls
  \<^verbatim>\<open>content = content.replace(old, new)\<close> five times with ten literal blocks, and
  writes \<^verbatim>\<open>content\<close> back. Every literal is ASCII, so a Python \<^verbatim>\<open>str\<close> is modelled as
  a \<^typ>\<open>string\<close> (one \<^typ>\<open>char\<close> per code point).

  \<^verbatim>\<open>s.replace(old, new)\<close> with the default count scans \<^verbatim>\<open>s\<close> from the left and
  substitutes every non-overlapping occurrence of \<^verbatim>\<open>old\<close>; with an empty \<^verbatim>\<open>old\<close> it
  puts \<^verbatim>\<open>new\<close> in front of every character and at the end. It never raises on
  \<^verbatim>\<open>str\<close> arguments, so the model is a total function.
\<close>

function replace :: "string \<Rightarrow> string \<Rightarrow> string \<Rightarrow> string" where
  "replace [] old new = (if old = [] then new else [])"
| "replace (c # cs) old new =
     (if old = [] then new @ c # replace cs old new
      else if prefix old (c # cs) then new @ replace (drop (length old) (c # cs)) old new
      else c # replace cs old new)"
  by pat_completeness auto
termination
  by (relation "measure (\<lambda>(s, old, new). length s)") auto

section \<open>The ten literal blocks of the script\<close>

definition old_v :: string where
  \<open>old_v =
     ''                  <Popup\<newline>'' @
     ''                    trigger={\<newline>'' @
     ''                      <Button\<newline>'' @
     ''                        size="mini"\<newline>'' @
     ''                        icon\<newline>'' @
     ''                        onClick={() => toggleKeyVisibility(token.id)}\<newline>'' @
     ''                      >\<newline>'' @
     ''                        <Icon name={showKeys[token.id] ? 'eye slash' : 'eye'} />\<newline>'' @
     ''                      </Button>\<newline>'' @
     ''                    }\<newline>'' @
     ''                    content={showKeys[token.id] ? t('common:hide') : t('common:show')}\<newline>'' @
     ''                    basic\<newline>'' @
     ''                    inverted\<newline>'' @
     ''                  />''\<close>

definition new_v :: string where
  \<open>new_v =
     ''                  <Popup\<newline>'' @
     ''                    trigger={\<newline>'' @
     ''                      <Button\<newline>'' @
     ''                        size="mini"\<newline>'' @
     ''                        icon\<newline>'' @
     ''                        onClick={() => toggleKeyVisibility(token.id)}\<newline>'' @
     ''                        aria-label={showKeys[token.id] ? t('common:hide', 'Hide') : t('common:show', 'Show')}\<newline>'' @
     ''                      >\<newline>'' @
     ''                        <Icon name={showKeys[token.id] ? 'eye slash' : 'eye'} />\<newline>'' @
     ''                      </Button>\<newline>'' @
     ''                    }\<newline>'' @
     ''                    content={showKeys[token.id] ? t('common:hide', 'Hide') : t('common:show', 'Show')}\<newline>'' @
     ''                    basic\<newline>'' @
     ''                    inverted\<newline>'' @
     ''                  />''\<close>

definition old_c :: string where
  \<open>old_c =
     ''                  <Popup\<newline>'' @
     ''                    trigger={\<newline>'' @
     ''                      <Button\<newline>'' @
     ''                        size="mini"\<newline>'' @
     ''                        icon\<newline>'' @
     ''                        onClick={() => copyTokenKey(token.key)}\<newline>'' @
     ''                      >\<newline>'' @
     ''                        <Icon name="copy" />\<newline>'' @
     ''                      </Button>\<newline>'' @
     ''                    }\<newline>'' @
     ''                    content={t('common:copy')}\<newline>'' @
     ''                    basic\<newline>'' @
     ''                    inverted\<newline>'' @
     ''                  />''\<close>

definition new_c :: string where
  \<open>new_c =
     ''                  <Popup\<newline>'' @
     ''                    trigger={\<newline>'' @
     ''                      <Button\<newline>'' @
     ''                        size="mini"\<newline>'' @
     ''                        icon\<newline>'' @
     ''                        onClick={() => copyTokenKey(token.key)}\<newline>'' @
     ''                        aria-label={t('common:copy', 'Copy')}\<newline>'' @
     ''                      >\<newline>'' @
     ''                        <Icon name="copy" />\<newline>'' @
     ''                      </Button>\<newline>'' @
     ''                    }\<newline>'' @
     ''                    content={t('common:copy', 'Copy')}\<newline>'' @
     ''                    basic\<newline>'' @
     ''                    inverted\<newline>'' @
     ''                  />''\<close>

definition old_e :: string where
  \<open>old_e =
     ''                  <Popup\<newline>'' @
     ''                    trigger={\<newline>'' @
     ''                      <Button\<newline>'' @
     ''                        size='small'\<newline>'' @
     ''                        positive={token.status === 1}\<newline>'' @
     ''                        negative={token.status !== 1}\<newline>'' @
     ''                        onClick={() => {\<newline>'' @
     ''                          manageToken(\<newline>'' @
     ''                            token.id,\<newline>'' @
     ''                            token.status === 1 ? 'disable' : 'enable',\<newline>'' @
     ''                            idx\<newline>'' @
     ''                          );\<newline>'' @
     ''                        }}\<newline>'' @
     ''                      >\<newline>'' @
     ''                        {token.status === 1 ? (\<newline>'' @
     ''                          <Icon name='pause' />\<newline>'' @
     ''                        ) : (\<newline>'' @
     ''                          <Icon name='play' />\<newline>'' @
     ''                        )}\<newline>'' @
     ''                      </Button>\<newline>'' @
     ''                    }\<newline>'' @
     ''                    content={\<newline>'' @
     ''                      token.status === 1\<newline>'' @
     ''                        ? t('common:disable')\<newline>'' @
     ''                        : t('common:enable')\<newline>'' @
     ''                    }\<newline>'' @
     ''                    basic\<newline>'' @
     ''                    inverted\<newline>'' @
     ''                  />''\<close>

definition new_e :: string where
  \<open>new_e =
     ''                  <Popup\<newline>'' @
     ''                    trigger={\<newline>'' @
     ''                      <Button\<newline>'' @
     ''                        size='small'\<newline>'' @
     ''                        positive={token.status === 1}\<newline>'' @
     ''                        negative={token.status !== 1}\<newline>'' @
     ''                        onClick={() => {\<newline>'' @
     ''                          manageToken(\<newline>'' @
     ''                            token.id,\<newline>'' @
     ''                            token.status === 1 ? 'disable' : 'enable',\<newline>'' @
     ''                            idx\<newline>'' @
     ''                          );\<newline>'' @
     ''                        }}\<newline>'' @
     ''                        aria-label={\<newline>'' @
     ''                          token.status === 1\<newline>'' @
     ''                            ? t('common:disable', 'Disable')\<newline>'' @
     ''                            : t('common:enable', 'Enable')\<newline>'' @
     ''                        }\<newline>'' @
     ''                      >\<newline>'' @
     ''                        {token.status === 1 ? (\<newline>'' @
     ''                          <Icon name='pause' />\<newline>'' @
     ''                        ) : (\<newline>'' @
     ''                          <Icon name='play' />\<newline>'' @
     ''                        )}\<newline>'' @
     ''                      </Button>\<newline>'' @
     ''                    }\<newline>'' @
     ''                    content={\<newline>'' @
     ''                      token.status === 1\<newline>'' @
     ''                        ? t('common:disable', 'Disable')\<newline>'' @
     ''                        : t('common:enable', 'Enable')\<newline>'' @
     ''                    }\<newline>'' @
     ''                    basic\<newline>'' @
     ''                    inverted\<newline>'' @
     ''                  />''\<close>

definition old_ed :: string where
  \<open>old_ed =
     ''                  <Popup\<newline>'' @
     ''                    trigger={\<newline>'' @
     ''                      <Button\<newline>'' @
     ''                        size='small'\<newline>'' @
     ''                        color='blue'\<newline>'' @
     ''                        as={Link}\<newline>'' @
     ''                        to={'/token/edit/' + token.id}\<newline>'' @
     ''                      >\<newline>'' @
     ''                        <Icon name='edit' />\<newline>'' @
     ''                      </Button>\<newline>'' @
     ''                    }\<newline>'' @
     ''                    content={t('common:edit')}\<newline>'' @
     ''                    basic\<newline>'' @
     ''                    inverted\<newline>'' @
     ''                  />''\<close>

definition new_ed :: string where
  \<open>new_ed =
     ''                  <Popup\<newline>'' @
     ''                    trigger={\<newline>'' @
     ''                      <Button\<newline>'' @
     ''                        size='small'\<newline>'' @
     ''                        color='blue'\<newline>'' @
     ''                        as={Link}\<newline>'' @
     ''                        to={'/token/edit/' + token.id}\<newline>'' @
     ''                        aria-label={t('common:edit', 'Edit')}\<newline>'' @
     ''                      >\<newline>'' @
     ''                        <Icon name='edit' />\<newline>'' @
     ''                      </Button>\<newline>'' @
     ''                    }\<newline>'' @
     ''                    content={t('common:edit', 'Edit')}\<newline>'' @
     ''                    basic\<newline>'' @
     ''                    inverted\<newline>'' @
     ''                  />''\<close>

definition old_d :: string where
  \<open>old_d =
     ''                  <Popup\<newline>'' @
     ''                    trigger={\<newline>'' @
     ''                      <Button\<newline>'' @
     ''                        size='small'\<newline>'' @
     ''                        negative\<newline>'' @
     ''                        onClick={() => {\<newline>'' @
     ''                          manageToken(token.id, 'delete', idx);\<newline>'' @
     ''                        }}\<newline>'' @
     ''                      >\<newline>'' @
     ''                        <Icon name='trash' />\<newline>'' @
     ''                      </Button>\<newline>'' @
     ''                    }\<newline>'' @
     ''                    content={t('common:delete')}\<newline>'' @
     ''                    basic\<newline>'' @
     ''                    inverted\<newline>'' @
     ''                  />''\<close>

definition new_d :: string where
  \<open>new_d =
     ''                  <Popup\<newline>'' @
     ''                    trigger={\<newline>'' @
     ''                      <Button\<newline>'' @
     ''                        size='small'\<newline>'' @
     ''                        negative\<newline>'' @
     ''                        aria-label={t('common:delete', 'Delete')}\<newline>'' @
     ''                      >\<newline>'' @
     ''                        <Icon name='trash' />\<newline>'' @
     ''                      </Button>\<newline>'' @
     ''                    }\<newline>'' @
     ''                    on='click'\<newline>'' @
     ''                    flowing\<newline>'' @
     ''                    hoverable\<newline>'' @
     ''                  >\<newline>'' @
     ''                    <Button\<newline>'' @
     ''                      negative\<newline>'' @
     ''                      onClick={() => {\<newline>'' @
     ''                        manageToken(token.id, 'delete', idx);\<newline>'' @
     ''                      }}\<newline>'' @
     ''                    >\<newline>'' @
     ''                      {t('token.confirm_delete', 'Delete Token')}\<newline>'' @
     ''                    </Button>\<newline>'' @
     ''                  </Popup>''\<close>

section \<open>The script\<close>

text \<open>The five assignments \<^verbatim>\<open>content = content.replace(old_x, new_x)\<close>, in the order of the script.\<close>

definition patcher :: "string \<Rightarrow> string" where
  "patcher content0 =
     (let content1 = replace content0 old_v new_v;
          content2 = replace content1 old_c new_c;
          content3 = replace content2 old_e new_e;
          content4 = replace content3 old_ed new_ed;
          content5 = replace content4 old_d new_d
      in content5)"

section \<open>Overlap analysis of two blocks\<close>

text \<open>
  \<open>agree x u\<close>: \<open>x\<close> and \<open>u\<close> agree as far as both reach.
  \<open>starts_within x B\<close>: an occurrence of \<open>x\<close> could begin at some position of \<open>B\<close>
  (ending inside \<open>B\<close> or running over its end).
\<close>

definition agree :: "string \<Rightarrow> string \<Rightarrow> bool" where
  "agree x u = (prefix x u \<or> prefix u x)"

fun starts_within :: "string \<Rightarrow> string \<Rightarrow> bool" where
  "starts_within x [] = False"
| "starts_within x (b # bs) = (agree x (b # bs) \<or> starts_within x bs)"

definition indep :: "string \<Rightarrow> string \<Rightarrow> bool" where
  "indep x B = (\<not> starts_within x B \<and> \<not> starts_within B (tl x))"

definition border_free :: "string \<Rightarrow> bool" where
  "border_free x = (\<not> starts_within x (tl x))"

text \<open>
  Every block of the script opens with the same 18 blanks and \<^verbatim>\<open><Popup\<close>. \<open>block x\<close> says
  that \<open>x\<close> opens with this marker and that the marker fits nowhere else in \<open>x\<close> (also
  not cut off by the end of \<open>x\<close>).
\<close>

definition marker :: string where
  "marker = ''                  <Popup''"

definition block :: "string \<Rightarrow> bool" where
  "block x = (prefix marker x \<and> \<not> starts_within marker (tl x))"

section \<open>The rule list and the script on a file system\<close>

text \<open>
  The five (old, new) pairs in the order in which the script applies them.
  \<open>apply_rule r s\<close> is the step \<^verbatim>\<open>s.replace(old, new)\<close> of rule \<open>r\<close>, and
  \<open>rule_sequence\<close> runs a list of rules from left to right, each on the output of the one
  before: the sequential reading of the script that \<^const>\<open>patcher\<close> is compared with.
\<close>

type_synonym rule = "string \<times> string"

definition rules :: "rule list" where
  "rules = [(old_v, new_v), (old_c, new_c), (old_e, new_e), (old_ed, new_ed), (old_d, new_d)]"

definition apply_rule :: "rule \<Rightarrow> string \<Rightarrow> string" where
  "apply_rule r s = replace s (fst r) (snd r)"

fun rule_sequence :: "rule list \<Rightarrow> string \<Rightarrow> string" where
  "rule_sequence [] s = s"
| "rule_sequence (r # rs) s = rule_sequence rs (apply_rule r s)"

text \<open>Python's \<^verbatim>\<open>sep.join(parts)\<close>, used to describe a buffer by the text between the matches.\<close>

fun join :: "string \<Rightarrow> string list \<Rightarrow> string" where
  "join sep [] = []"
| "join sep [x] = x"
| "join sep (x # y # ys) = x @ sep @ join sep (y # ys)"

text \<open>
  The world the script runs in: the files, the command line and the environment. A file
  has its stored bytes and the two permissions that \<^verbatim>\<open>open\<close> checks. The script opens the
  path \<^verbatim>\<open>'web/default/src/components/TokensTable.js'\<close> in text mode for reading and reads
  it whole, patches the text, and opens the same literal path in text mode for writing,
  which replaces the file's bytes. Nothing catches an exception, so the first one ends
  the run: \<^verbatim>\<open>FileNotFoundError\<close> for a missing file, \<^verbatim>\<open>PermissionError\<close> for a file that
  may not be read or may not be written, \<^verbatim>\<open>UnicodeDecodeError\<close> for bytes that the codec
  rejects. Each of them is raised before anything is written. \<^verbatim>\<open>import sys\<close> is never used.

  Neither \<^verbatim>\<open>open\<close> call names an encoding, so the interpreter takes the codec from the
  locale, which it derives from the environment. What the interpreter and the operating
  system do there is not in the script; it is the parameter \<open>rt\<close> of \<open>run\<close>:
  \<open>locale_encoding rt\<close> picks the codec for an environment, \<open>decode rt\<close> is what
  \<^verbatim>\<open>f.read()\<close> returns for stored bytes (\<open>None\<close> when the codec rejects them; newline
  translation included), and \<open>encode rt\<close> is what \<^verbatim>\<open>f.write\<close> stores for a text. The written
  text consists of decoded characters and the characters of the new blocks, which the
  same codec encodes, so \<open>encode rt\<close> is total. Failures of the device (a full disk, a
  directory at the path) are outside this model.
  \<open>target_path\<close> names the path for the statements below; \<open>run\<close> spells the literal out at
  both \<^verbatim>\<open>open\<close> calls, as the script does.
\<close>

datatype error = FileNotFoundError | PermissionError | UnicodeDecodeError

record 'b stored_file =
  bytes :: 'b
  readable :: bool
  writable :: bool

record 'b world =
  files :: "string \<rightharpoonup> 'b stored_file"
  argv :: "string list"
  environ :: "string \<rightharpoonup> string"

record ('e, 'b) runtime =
  locale_encoding :: "(string \<rightharpoonup> string) \<Rightarrow> 'e"
  decode :: "'e \<Rightarrow> 'b \<Rightarrow> string option"
  encode :: "'e \<Rightarrow> string \<Rightarrow> 'b"

definition target_path :: string where
  "target_path = ''web/default/src/components/TokensTable.js''"

definition run :: "('e, 'b) runtime \<Rightarrow> 'b world \<Rightarrow> error + 'b world" where
  "run rt w =
     (case files w ''web/default/src/components/TokensTable.js'' of
        None \<Rightarrow> Inl FileNotFoundError
      | Some f \<Rightarrow>
          if \<not> readable f then Inl PermissionError
          else
            (case decode rt (locale_encoding rt (environ w)) (bytes f) of
               None \<Rightarrow> Inl UnicodeDecodeError
             | Some content \<Rightarrow>
                 if \<not> writable f then Inl PermissionError
                 else
                   Inr (w\<lparr>files := (files w)(''web/default/src/components/TokensTable.js'' \<mapsto>
                     f\<lparr>bytes := encode rt (locale_encoding rt (environ w)) (patcher content)\<rparr>)\<rparr>)))"

text \<open>
  One runtime, for concrete runs: an interpreter on a POSIX system that has the locales
  \<^verbatim>\<open>C\<close> and \<^verbatim>\<open>en_US.ISO-8859-1\<close>, started with its UTF-8 mode and its locale coercion
  switched off. The locale is named by the first of \<^verbatim>\<open>LC_ALL\<close>, \<^verbatim>\<open>LC_CTYPE\<close> and \<^verbatim>\<open>LANG\<close>
  that is set and not empty; a name the system does not have leaves the \<^verbatim>\<open>C\<close> locale,
  whose codec is US-ASCII. Stored bytes and characters are both \<^typ>\<open>char\<close>: US-ASCII
  accepts the bytes below 128, ISO-8859-1 maps every byte to the character of the same
  number. Reading turns CR LF and a lone CR into LF; writing stores LF as it is.
\<close>

datatype encoding = US_ASCII | ISO_8859_1

definition locale_name :: "(string \<rightharpoonup> string) \<Rightarrow> string" where
  "locale_name env =
     (case env ''LC_ALL'' of
        Some (c # cs) \<Rightarrow> c # cs
      | _ \<Rightarrow>
          (case env ''LC_CTYPE'' of
             Some (c # cs) \<Rightarrow> c # cs
           | _ \<Rightarrow> (case env ''LANG'' of Some (c # cs) \<Rightarrow> c # cs | _ \<Rightarrow> ''C'')))"

definition posix_locale_encoding :: "(string \<rightharpoonup> string) \<Rightarrow> encoding" where
  "posix_locale_encoding env =
     (if locale_name env = ''en_US.ISO-8859-1'' then ISO_8859_1 else US_ASCII)"

fun universal_newlines :: "string \<Rightarrow> string" where
  "universal_newlines [] = []"
| "universal_newlines [c] = (if c = CHR 0x0D then [CHR 0x0A] else [c])"
| "universal_newlines (c # d # cs) =
     (if c = CHR 0x0D
      then (if d = CHR 0x0A then CHR 0x0A # universal_newlines cs
            else CHR 0x0A # universal_newlines (d # cs))
      else c # universal_newlines (d # cs))"

definition posix_decode :: "encoding \<Rightarrow> string \<Rightarrow> string option" where
  "posix_decode e bs =
     (case e of
        US_ASCII \<Rightarrow>
          if list_all (\<lambda>b. (of_char b :: nat) < 128) bs then Some (universal_newlines bs)
          else None
      | ISO_8859_1 \<Rightarrow> Some (universal_newlines bs))"

definition posix_encode :: "encoding \<Rightarrow> string \<Rightarrow> string" where
  "posix_encode e s = s"

definition posix_runtime :: "(encoding, string) runtime" where
  "posix_runtime =
     \<lparr>locale_encoding = posix_locale_encoding, decode = posix_decode, encode = posix_encode\<rparr>"

section \<open>The parts of the new delete block\<close>

text \<open>
  The three elements of \<^const>\<open>new_d\<close>: the \<^verbatim>\<open>Button\<close> given as the popup's trigger, the
  properties of the \<^verbatim>\<open>Popup\<close> after the trigger, and the \<^verbatim>\<open>Button\<close> that is the popup's
  child.
\<close>

definition new_d_trigger_button :: string where
  \<open>new_d_trigger_button =
     ''                      <Button\<newline>'' @
     ''                        size='small'\<newline>'' @
     ''                        negative\<newline>'' @
     ''                        aria-label={t('common:delete', 'Delete')}\<newline>'' @
     ''                      >\<newline>'' @
     ''                        <Icon name='trash' />\<newline>'' @
     ''                      </Button>\<newline>''\<close>

definition new_d_popup_props :: string where
  \<open>new_d_popup_props =
     ''                    on='click'\<newline>'' @
     ''                    flowing\<newline>'' @
     ''                    hoverable\<newline>''\<close>

definition new_d_confirm_button :: string where
  \<open>new_d_confirm_button =
     ''                    <Button\<newline>'' @
     ''                      negative\<newline>'' @
     ''                      onClick={() => {\<newline>'' @
     ''                        manageToken(token.id, 'delete', idx);\<newline>'' @
     ''                      }}\<newline>'' @
     ''                    >\<newline>'' @
     ''                      {t('token.confirm_delete', 'Delete Token')}\<newline>'' @
     ''                    </Button>\<newline>''\<close>

section \<open>Facts computed from the literal blocks\<close>

text \<open>Each of the ten blocks opens with the marker, which fits nowhere else in it.\<close>

lemma block_old_v: "block old_v"
  unfolding block_def marker_def old_v_def by (simp add: agree_def)

lemma block_old_c: "block old_c"
  unfolding block_def marker_def old_c_def by (simp add: agree_def)

lemma block_old_e: "block old_e"
  unfolding block_def marker_def old_e_def by (simp add: agree_def)

lemma block_old_ed: "block old_ed"
  unfolding block_def marker_def old_ed_def by (simp add: agree_def)

lemma block_old_d: "block old_d"
  unfolding block_def marker_def old_d_def by (simp add: agree_def)

lemma block_new_v: "block new_v"
  unfolding block_def marker_def new_v_def by (simp add: agree_def)

lemma block_new_c: "block new_c"
  unfolding block_def marker_def new_c_def by (simp add: agree_def)

lemma block_new_e: "block new_e"
  unfolding block_def marker_def new_e_def by (simp add: agree_def)

lemma block_new_ed: "block new_ed"
  unfolding block_def marker_def new_ed_def by (simp add: agree_def)

lemma block_new_d: "block new_d"
  unfolding block_def marker_def new_d_def by (simp add: agree_def)

text \<open>
  No old block is a prefix of another old block or of a new block, nor the other way
  round: each pair differs before either of the two ends.
\<close>

lemma agree_old_v_old_c: "\<not> agree old_v old_c"
  unfolding agree_def old_v_def old_c_def by simp

lemma agree_old_v_old_e: "\<not> agree old_v old_e"
  unfolding agree_def old_v_def old_e_def by simp

lemma agree_old_v_old_ed: "\<not> agree old_v old_ed"
  unfolding agree_def old_v_def old_ed_def by simp

lemma agree_old_v_old_d: "\<not> agree old_v old_d"
  unfolding agree_def old_v_def old_d_def by simp

lemma agree_old_v_new_v: "\<not> agree old_v new_v"
  unfolding agree_def old_v_def new_v_def by simp

lemma agree_old_v_new_c: "\<not> agree old_v new_c"
  unfolding agree_def old_v_def new_c_def by simp

lemma agree_old_v_new_e: "\<not> agree old_v new_e"
  unfolding agree_def old_v_def new_e_def by simp

lemma agree_old_v_new_ed: "\<not> agree old_v new_ed"
  unfolding agree_def old_v_def new_ed_def by simp

lemma agree_old_v_new_d: "\<not> agree old_v new_d"
  unfolding agree_def old_v_def new_d_def by simp

lemma agree_old_c_old_e: "\<not> agree old_c old_e"
  unfolding agree_def old_c_def old_e_def by simp

lemma agree_old_c_old_ed: "\<not> agree old_c old_ed"
  unfolding agree_def old_c_def old_ed_def by simp

lemma agree_old_c_old_d: "\<not> agree old_c old_d"
  unfolding agree_def old_c_def old_d_def by simp

lemma agree_old_c_new_v: "\<not> agree old_c new_v"
  unfolding agree_def old_c_def new_v_def by simp

lemma agree_old_c_new_c: "\<not> agree old_c new_c"
  unfolding agree_def old_c_def new_c_def by simp

lemma agree_old_c_new_e: "\<not> agree old_c new_e"
  unfolding agree_def old_c_def new_e_def by simp

lemma agree_old_c_new_ed: "\<not> agree old_c new_ed"
  unfolding agree_def old_c_def new_ed_def by simp

lemma agree_old_c_new_d: "\<not> agree old_c new_d"
  unfolding agree_def old_c_def new_d_def by simp

lemma agree_old_e_old_ed: "\<not> agree old_e old_ed"
  unfolding agree_def old_e_def old_ed_def by simp

lemma agree_old_e_old_d: "\<not> agree old_e old_d"
  unfolding agree_def old_e_def old_d_def by simp

lemma agree_old_e_new_v: "\<not> agree old_e new_v"
  unfolding agree_def old_e_def new_v_def by simp

lemma agree_old_e_new_c: "\<not> agree old_e new_c"
  unfolding agree_def old_e_def new_c_def by simp

lemma agree_old_e_new_e: "\<not> agree old_e new_e"
  unfolding agree_def old_e_def new_e_def by simp

lemma agree_old_e_new_ed: "\<not> agree old_e new_ed"
  unfolding agree_def old_e_def new_ed_def by simp

lemma agree_old_e_new_d: "\<not> agree old_e new_d"
  unfolding agree_def old_e_def new_d_def by simp

lemma agree_old_ed_old_d: "\<not> agree old_ed old_d"
  unfolding agree_def old_ed_def old_d_def by simp

lemma agree_old_ed_new_v: "\<not> agree old_ed new_v"
  unfolding agree_def old_ed_def new_v_def by simp

lemma agree_old_ed_new_c: "\<not> agree old_ed new_c"
  unfolding agree_def old_ed_def new_c_def by simp

lemma agree_old_ed_new_e: "\<not> agree old_ed new_e"
  unfolding agree_def old_ed_def new_e_def by simp

lemma agree_old_ed_new_ed: "\<not> agree old_ed new_ed"
  unfolding agree_def old_ed_def new_ed_def by simp

lemma agree_old_ed_new_d: "\<not> agree old_ed new_d"
  unfolding agree_def old_ed_def new_d_def by simp

lemma agree_old_d_new_v: "\<not> agree old_d new_v"
  unfolding agree_def old_d_def new_v_def by simp

lemma agree_old_d_new_c: "\<not> agree old_d new_c"
  unfolding agree_def old_d_def new_c_def by simp

lemma agree_old_d_new_e: "\<not> agree old_d new_e"
  unfolding agree_def old_d_def new_e_def by simp

lemma agree_old_d_new_ed: "\<not> agree old_d new_ed"
  unfolding agree_def old_d_def new_ed_def by simp

lemma agree_old_d_new_d: "\<not> agree old_d new_d"
  unfolding agree_def old_d_def new_d_def by simp

text \<open>Every new block is longer than the old block it stands in for.\<close>

lemma new_longer:
  "length old_v < length new_v" "length old_c < length new_c" "length old_e < length new_e"
  "length old_ed < length new_ed" "length old_d < length new_d"
  unfolding old_v_def new_v_def old_c_def new_c_def old_e_def new_e_def old_ed_def new_ed_def
    old_d_def new_d_def by simp_all

text \<open>The new delete block, cut into its parts, and what each part contains.\<close>

lemma new_d_parts:
  "new_d =
     ''                  <Popup\<newline>'' @
     ''                    trigger={\<newline>'' @
     new_d_trigger_button @
     ''                    }\<newline>'' @
     new_d_popup_props @
     ''                  >\<newline>'' @
     new_d_confirm_button @
     ''                  </Popup>''"
  unfolding new_d_def new_d_trigger_button_def new_d_popup_props_def new_d_confirm_button_def
  by simp

lemma trigger_button_facts:
  "\<not> sublist ''onClick'' new_d_trigger_button"
  "\<not> sublist ''manageToken'' new_d_trigger_button"
  "sublist ''aria-label={t('common:delete', 'Delete')}'' new_d_trigger_button"
  unfolding new_d_trigger_button_def by (simp_all add: sublist_Cons_right)

lemma popup_props_facts:
  "\<not> sublist ''manageToken'' new_d_popup_props"
  "sublist ''on='click'\<newline>'' new_d_popup_props"
  "sublist ''hoverable\<newline>'' new_d_popup_props"
  unfolding new_d_popup_props_def by (simp_all add: sublist_Cons_right)

lemma confirm_button_facts:
  "sublist (''onClick={() => {\<newline>'' @
            ''                        manageToken(token.id, 'delete', idx);\<newline>'' @
            ''                      }}\<newline>'') new_d_confirm_button"
  "sublist ''{t('token.confirm_delete', 'Delete Token')}'' new_d_confirm_button"
  unfolding new_d_confirm_button_def by (simp_all add: sublist_Cons_right)


section \<open>Occurrences of one block around another\<close>

lemma agree_marker: "prefix m x \<Longrightarrow> agree x u \<Longrightarrow> agree m u"
  unfolding agree_def using prefix_same_cases prefix_order.trans by blast

lemma starts_within_marker: "prefix m x \<Longrightarrow> starts_within x B \<Longrightarrow> starts_within m B"
  by (induction B) (auto dest: agree_marker)

lemma prefix_append_agree: "prefix x (B @ b) \<Longrightarrow> agree x B"
  unfolding agree_def by (auto simp: prefix_append)

lemma starts_within_suffix: "u \<noteq> [] \<Longrightarrow> agree B u \<Longrightarrow> starts_within B (p @ u)"
  by (induction p) (auto simp: neq_Nil_conv)

lemma sublist_block_front: "sublist x (B @ b) \<Longrightarrow> starts_within x B \<or> sublist x b"
proof (induction B)
  case Nil
  then show ?case by simp
next
  case (Cons c B)
  from Cons.prems have "prefix x ((c # B) @ b) \<or> sublist x (B @ b)"
    by (simp add: sublist_Cons_right)
  then show ?case
  proof
    assume "prefix x ((c # B) @ b)"
    then have "agree x (c # B)" by (rule prefix_append_agree)
    then show ?thesis by simp
  next
    assume "sublist x (B @ b)"
    with Cons.IH show ?thesis by auto
  qed
qed

lemma sublist_around_block:
  "sublist x (a @ B @ b) \<Longrightarrow>
     sublist x a \<or> sublist x b \<or> starts_within x B \<or> starts_within B (tl x)"
proof (induction a)
  case Nil
  then show ?case using sublist_block_front by auto
next
  case (Cons c a)
  from Cons.prems have "prefix x ((c # a) @ B @ b) \<or> sublist x (a @ B @ b)"
    by (simp add: sublist_Cons_right)
  then show ?case
  proof
    assume "prefix x ((c # a) @ B @ b)"
    then consider "prefix x (c # a)" | us where "x = (c # a) @ us" "prefix us (B @ b)"
      using prefix_append[of x "c # a" "B @ b"] by blast
    then show ?thesis
    proof cases
      case 1
      then show ?thesis by auto
    next
      case 2
      show ?thesis
      proof (cases "us = []")
        case True
        with 2 show ?thesis by simp
      next
        case False
        from 2 have "agree us B" by (auto dest: prefix_append_agree)
        then have "agree B us" by (auto simp: agree_def)
        with False have "starts_within B (a @ us)" by (rule starts_within_suffix)
        with 2 show ?thesis by simp
      qed
    qed
  next
    assume "sublist x (a @ B @ b)"
    with Cons.IH show ?thesis by (auto simp: sublist_Cons_right)
  qed
qed

lemma replace_absent: "old \<noteq> [] \<Longrightarrow> \<not> sublist old s \<Longrightarrow> replace s old new = s"
  by (induction s) (auto simp: sublist_Cons_right)

lemma replace_prefix: "old \<noteq> [] \<Longrightarrow> replace (old @ b) old new = new @ replace b old new"
  by (cases old) auto

lemma replace_skip:
  "old \<noteq> [] \<Longrightarrow> \<not> starts_within old B \<Longrightarrow> replace (B @ b) old new = B @ replace b old new"
proof (induction B)
  case Nil
  then show ?case by simp
next
  case (Cons c B)
  from Cons.prems have "\<not> agree old (c # B)" "\<not> starts_within old B" by auto
  then have "\<not> prefix old ((c # B) @ b)" using prefix_append_agree by blast
  with Cons show ?case by simp
qed

lemma replace_append:
  "old \<noteq> [] \<Longrightarrow> \<not> starts_within B (tl old) \<Longrightarrow>
     replace (a @ B @ b) old new = replace a old new @ replace (B @ b) old new"
proof (induction a rule: length_induct)
  case (1 a)
  show ?case
  proof (cases a)
    case Nil
    with 1 show ?thesis by simp
  next
    case (Cons c a')
    show ?thesis
    proof (cases "prefix old a")
      case True
      then obtain r where r: "a = old @ r" by (auto simp: prefix_def)
      with 1 have "length r < length a" by simp
      with 1 have "replace (r @ B @ b) old new = replace r old new @ replace (B @ b) old new"
        by blast
      with r 1 show ?thesis using replace_prefix[of old "r @ B @ b" new] replace_prefix[of old r new]
        by simp
    next
      case False
      have np: "\<not> prefix old (a @ B @ b)"
      proof
        assume "prefix old (a @ B @ b)"
        with False obtain us where us: "old = a @ us" "prefix us (B @ b)"
          using prefix_append[of old a "B @ b"] by blast
        with False have "us \<noteq> []" by auto
        moreover from us have "agree B us" using prefix_append_agree by (auto simp: agree_def)
        ultimately have "starts_within B (a' @ us)" by (rule starts_within_suffix)
        with us Cons 1 show False by simp
      qed
      from 1 Cons have "replace (a' @ B @ b) old new = replace a' old new @ replace (B @ b) old new"
        by simp
      with np False Cons 1 show ?thesis by simp
    qed
  qed
qed

lemma replace_block:
  "old \<noteq> [] \<Longrightarrow> border_free old \<Longrightarrow>
     replace (a @ old @ b) old new = replace a old new @ new @ replace b old new"
  by (simp add: border_free_def replace_append replace_prefix)

lemma replace_indep:
  "old \<noteq> [] \<Longrightarrow> indep old B \<Longrightarrow>
     replace (a @ B @ b) old new = replace a old new @ B @ replace b old new"
  by (simp add: indep_def replace_append replace_skip)

lemma marker_nonempty: "marker \<noteq> []"
  by (simp add: marker_def)

lemma block_nonempty: "block x \<Longrightarrow> x \<noteq> []"
  using marker_nonempty by (auto simp: block_def)

lemma border_free_block: "block x \<Longrightarrow> border_free x"
  unfolding block_def border_free_def using starts_within_marker by blast

lemma indep_blocks:
  assumes "block x" "block B" "\<not> agree x B"
  shows "indep x B"
proof -
  from assms(2) obtain b bs where B: "B = b # bs"
    using block_nonempty by (cases B) auto
  have "\<not> starts_within x (tl B)"
    using assms(1,2) starts_within_marker[of marker x "tl B"] by (auto simp: block_def)
  with assms(3) B have "\<not> starts_within x B" by simp
  moreover have "\<not> starts_within B (tl x)"
    using assms(1,2) starts_within_marker[of marker B "tl x"] by (auto simp: block_def)
  ultimately show ?thesis by (simp add: indep_def)
qed

lemma agree_sym: "agree x y = agree y x"
  by (auto simp: agree_def)

lemma sublist_starts_in:
  assumes "sublist x p" "x \<noteq> []"
  shows "\<exists>k<length p. prefix x (drop k (p @ s))"
proof -
  from assms(1) obtain ps ss where p: "p = ps @ x @ ss" by (auto simp: sublist_def)
  with assms(2) have "length ps < length p" by simp
  moreover from p have "prefix x (drop (length ps) (p @ s))" by simp
  ultimately show ?thesis by blast
qed

lemma prefix_drop_sublist: "prefix x (drop k s) \<Longrightarrow> sublist x s"
proof -
  assume "prefix x (drop k s)"
  then obtain r where "drop k s = x @ r" by (auto simp: prefix_def)
  then have "s = take k s @ x @ r" by (metis append_take_drop_id)
  then show ?thesis unfolding sublist_def by blast
qed

lemma replace_no_occurrence:
  assumes "x \<noteq> []" "old \<noteq> []" "indep x new"
  shows "(\<forall>k<length p. \<not> prefix x (drop k (p @ s))) \<Longrightarrow>
         (\<forall>k. prefix x (drop k s) \<longrightarrow> prefix old (drop k s)) \<Longrightarrow>
         \<not> sublist x (p @ replace s old new)"
proof (induction s arbitrary: p rule: length_induct)
  case (1 s)
  note starts = "1.prems"(1) and matches = "1.prems"(2)
  show ?case
  proof (cases s)
    case Nil
    with starts assms show ?thesis using sublist_starts_in[of x p "[]"] by auto
  next
    case (Cons c cs)
    show ?thesis
    proof (cases "prefix old s")
      case True
      then obtain r where r: "s = old @ r" by (auto simp: prefix_def)
      with assms have short: "length r < length s" by simp
      have "\<forall>k. prefix x (drop k r) \<longrightarrow> prefix old (drop k r)"
      proof (intro allI impI)
        fix k assume "prefix x (drop k r)"
        with r have "prefix x (drop (k + length old) s)" by simp
        with matches have "prefix old (drop (k + length old) s)" by blast
        with r show "prefix old (drop k r)" by simp
      qed
      with "1.IH" short have rest: "\<not> sublist x ([] @ replace r old new)"
        by (metis append_Nil list.size(3) not_less_zero)
      have "\<not> sublist x p"
        using starts sublist_starts_in[of x p s] assms(1) by blast
      moreover from assms(3) have "\<not> starts_within x new" "\<not> starts_within new (tl x)"
        by (auto simp: indep_def)
      ultimately have "\<not> sublist x (p @ new @ replace r old new)"
        using rest sublist_around_block[of x p new "replace r old new"] by auto
      with r assms(2) show ?thesis by (simp add: replace_prefix)
    next
      case False
      with Cons assms(2) have step: "replace s old new = c # replace cs old new" by simp
      from False matches have "\<not> prefix x s" by (metis drop0)
      have "\<forall>k<length (p @ [c]). \<not> prefix x (drop k ((p @ [c]) @ cs))"
      proof (intro allI impI)
        fix k assume "k < length (p @ [c])"
        then consider "k < length p" | "k = length p" by fastforce
        then show "\<not> prefix x (drop k ((p @ [c]) @ cs))"
        proof cases
          case 1
          with starts Cons show ?thesis by simp
        next
          case 2
          with \<open>\<not> prefix x s\<close> Cons show ?thesis by simp
        qed
      qed
      moreover have "\<forall>k. prefix x (drop k cs) \<longrightarrow> prefix old (drop k cs)"
      proof (intro allI impI)
        fix k assume "prefix x (drop k cs)"
        with Cons have "prefix x (drop (Suc k) s)" by simp
        with matches have "prefix old (drop (Suc k) s)" by blast
        with Cons show "prefix old (drop k cs)" by simp
      qed
      moreover from Cons have "length cs < length s" by simp
      ultimately have "\<not> sublist x ((p @ [c]) @ replace cs old new)"
        using "1.IH" by blast
      with step show ?thesis by simp
    qed
  qed
qed

lemma replace_removes: "old \<noteq> [] \<Longrightarrow> indep old new \<Longrightarrow> \<not> sublist old (replace s old new)"
  using replace_no_occurrence[of old old new "[]" s] by simp

lemma replace_keeps_absent:
  "x \<noteq> [] \<Longrightarrow> old \<noteq> [] \<Longrightarrow> indep x new \<Longrightarrow> \<not> sublist x s \<Longrightarrow>
     \<not> sublist x (replace s old new)"
  using replace_no_occurrence[of x old new "[]" s] prefix_drop_sublist[of x _ s] by auto

lemma replace_join:
  "old \<noteq> [] \<Longrightarrow> border_free old \<Longrightarrow> \<forall>seg\<in>set segs. \<not> sublist old seg \<Longrightarrow>
     replace (join old segs) old new = join new segs"
proof (induction old segs rule: join.induct)
  case (1 sep)
  then show ?case by simp
next
  case (2 sep x)
  then show ?case by (simp add: replace_absent)
next
  case (3 sep x y ys)
  then show ?case by (simp add: replace_block replace_absent)
qed

lemma length_replace: "length old \<le> length new \<Longrightarrow> length s \<le> length (replace s old new)"
proof (induction s rule: length_induct)
  case (1 s)
  show ?case
  proof (cases s)
    case Nil
    then show ?thesis by simp
  next
    case (Cons c cs)
    show ?thesis
    proof (cases "old \<noteq> [] \<and> prefix old s")
      case True
      then obtain r where r: "s = old @ r" by (auto simp: prefix_def)
      with True have "length r < length s" by simp
      with 1 have "length r \<le> length (replace r old new)" by blast
      with r True "1.prems" show ?thesis by (simp add: replace_prefix)
    next
      case False
      from 1 Cons have "length cs \<le> length (replace cs old new)" by simp
      with False Cons show ?thesis by auto
    qed
  qed
qed

section \<open>The five rules on the blocks of the script\<close>

lemmas blocks =
  block_old_v block_old_c block_old_e block_old_ed block_old_d
  block_new_v block_new_c block_new_e block_new_ed block_new_d

lemma old_nonempty:
  "old_v \<noteq> []" "old_c \<noteq> []" "old_e \<noteq> []" "old_ed \<noteq> []" "old_d \<noteq> []"
  by (simp_all add: block_nonempty blocks)

lemma old_border_free:
  "border_free old_v" "border_free old_c" "border_free old_e" "border_free old_ed" "border_free old_d"
  by (simp_all add: border_free_block blocks)

lemma indep_old_old:
  "indep old_v old_c"
  "indep old_v old_e"
  "indep old_v old_ed"
  "indep old_v old_d"
  "indep old_c old_e"
  "indep old_c old_ed"
  "indep old_c old_d"
  "indep old_e old_ed"
  "indep old_e old_d"
  "indep old_ed old_d"
  by (simp_all add: indep_blocks blocks
      agree_old_v_old_c agree_old_v_old_e agree_old_v_old_ed
      agree_old_v_old_d agree_old_c_old_e agree_old_c_old_ed
      agree_old_c_old_d agree_old_e_old_ed agree_old_e_old_d
      agree_old_ed_old_d)

lemma indep_old_new:
  "indep old_v new_v"
  "indep old_v new_c"
  "indep old_v new_e"
  "indep old_v new_ed"
  "indep old_v new_d"
  "indep old_c new_v"
  "indep old_c new_c"
  "indep old_c new_e"
  "indep old_c new_ed"
  "indep old_c new_d"
  "indep old_e new_v"
  "indep old_e new_c"
  "indep old_e new_e"
  "indep old_e new_ed"
  "indep old_e new_d"
  "indep old_ed new_v"
  "indep old_ed new_c"
  "indep old_ed new_e"
  "indep old_ed new_ed"
  "indep old_ed new_d"
  "indep old_d new_v"
  "indep old_d new_c"
  "indep old_d new_e"
  "indep old_d new_ed"
  "indep old_d new_d"
  by (simp_all add: indep_blocks blocks
      agree_old_v_new_v agree_old_v_new_c agree_old_v_new_e
      agree_old_v_new_ed agree_old_v_new_d agree_old_c_new_v
      agree_old_c_new_c agree_old_c_new_e agree_old_c_new_ed
      agree_old_c_new_d agree_old_e_new_v agree_old_e_new_c
      agree_old_e_new_e agree_old_e_new_ed agree_old_e_new_d
      agree_old_ed_new_v agree_old_ed_new_c agree_old_ed_new_e
      agree_old_ed_new_ed agree_old_ed_new_d agree_old_d_new_v
      agree_old_d_new_c agree_old_d_new_e agree_old_d_new_ed
      agree_old_d_new_d)

lemma patcher_old_v: "patcher (a @ old_v @ b) = patcher a @ new_v @ patcher b"
  by (simp add: patcher_def replace_block replace_indep old_nonempty old_border_free indep_old_new)

lemma patcher_old_c: "patcher (a @ old_c @ b) = patcher a @ new_c @ patcher b"
  by (simp add: patcher_def replace_block replace_indep old_nonempty old_border_free
      indep_old_old indep_old_new)

lemma patcher_old_e: "patcher (a @ old_e @ b) = patcher a @ new_e @ patcher b"
  by (simp add: patcher_def replace_block replace_indep old_nonempty old_border_free
      indep_old_old indep_old_new)

lemma patcher_old_ed: "patcher (a @ old_ed @ b) = patcher a @ new_ed @ patcher b"
  by (simp add: patcher_def replace_block replace_indep old_nonempty old_border_free
      indep_old_old indep_old_new)

lemma patcher_old_d: "patcher (a @ old_d @ b) = patcher a @ new_d @ patcher b"
  by (simp add: patcher_def replace_block replace_indep old_nonempty old_border_free
      indep_old_old)

lemma patcher_absent:
  assumes "\<not> sublist old_v s" "\<not> sublist old_c s" "\<not> sublist old_e s"
    "\<not> sublist old_ed s" "\<not> sublist old_d s"
  shows "patcher s = s"
  using assms by (simp add: patcher_def replace_absent old_nonempty)

lemma patcher_removes:
  "\<not> sublist old_v (patcher s)" "\<not> sublist old_c (patcher s)" "\<not> sublist old_e (patcher s)"
  "\<not> sublist old_ed (patcher s)" "\<not> sublist old_d (patcher s)"
  by (simp_all add: patcher_def replace_removes replace_keeps_absent old_nonempty indep_old_new)

lemma in_rules:
  "r \<in> set rules \<Longrightarrow> fst r \<noteq> [] \<and> border_free (fst r)"
  by (auto simp: rules_def old_nonempty old_border_free)

lemma block_length: "block x \<Longrightarrow> 24 \<le> length x"
  by (auto simp: block_def marker_def prefix_def)

lemma short_text_no_block: "block x \<Longrightarrow> length t < 24 \<Longrightarrow> \<not> sublist x t"
  using block_length[of x] sublist_length_le[of x t] by auto

lemma rules_absent:
  "(\<forall>r\<in>set rules. \<not> sublist (fst r) t) =
     (\<not> sublist old_v t \<and> \<not> sublist old_c t \<and> \<not> sublist old_e t \<and>
      \<not> sublist old_ed t \<and> \<not> sublist old_d t)"
  by (simp add: rules_def)

lemma patcher_Nil: "patcher [] = []"
  by (simp add: patcher_def old_nonempty)


text \<open>Facts for concrete runs.\<close>

lemma universal_newlines_id: "CHR 0x0D \<notin> set s \<Longrightarrow> universal_newlines s = s"
  by (induction s rule: universal_newlines.induct) auto

lemma no_CR_old_d: "CHR 0x0D \<notin> set old_d"
  unfolding old_d_def by simp

lemma patcher_only_old_d: "patcher (old_d @ t) = new_d @ patcher t"
  using patcher_old_d[of "[]" t] by (simp add: patcher_Nil)

lemma patcher_short: "length t < 24 \<Longrightarrow> patcher t = t"
  by (rule patcher_absent) (simp_all add: short_text_no_block blocks)

lemma posix_iso:
  "posix_locale_encoding [''LANG'' \<mapsto> ''en_US.ISO-8859-1''] = ISO_8859_1"
  "posix_locale_encoding [''LC_ALL'' \<mapsto> ''en_US.ISO-8859-1''] = ISO_8859_1"
  by (simp_all add: posix_locale_encoding_def locale_name_def)

lemma posix_c:
  "posix_locale_encoding [''LANG'' \<mapsto> ''C''] = US_ASCII"
  "posix_locale_encoding [''LC_ALL'' \<mapsto> ''C''] = US_ASCII"
  by (simp_all add: posix_locale_encoding_def locale_name_def)

section \<open>The claims of the specification\<close>

text \<open>
  Claim C1. For each of the five rules \<open>r\<close> and any buffer that contains the rule's old
  literal, written as \<open>pre @ fst r @ post\<close> around any one occurrence, the rule's replace
  step puts the new literal \<open>snd r\<close> in place of that occurrence and treats \<open>pre\<close> and
  \<open>post\<close> on their own; where \<open>pre\<close> and \<open>post\<close> hold no further occurrence, the result
  is \<open>pre @ snd r @ post\<close>: the buffer is unchanged outside the matched span.
\<close>
theorem replace_step_replaces_literal:
  assumes "r \<in> set rules"
  shows "apply_rule r (pre @ fst r @ post) = apply_rule r pre @ snd r @ apply_rule r post \<and>
    (\<not> sublist (fst r) pre \<and> \<not> sublist (fst r) post \<longrightarrow>
       apply_rule r (pre @ fst r @ post) = pre @ snd r @ post)"
  using in_rules[OF assms] by (simp add: apply_rule_def replace_block replace_absent)

theorem replace_step_replaces_literal_witness:
  "(old_v, new_v) \<in> set rules \<and> \<not> sublist old_v ''<td>'' \<and> \<not> sublist old_v ''</td>'' \<and>
   apply_rule (old_v, new_v) (''<td>'' @ old_v @ ''</td>'') = ''<td>'' @ new_v @ ''</td>''"
proof -
  have r: "(old_v, new_v) \<in> set rules" by (simp add: rules_def)
  have a: "\<not> sublist old_v ''<td>''" "\<not> sublist old_v ''</td>''"
    by (simp_all add: short_text_no_block block_old_v)
  have "apply_rule (old_v, new_v) (''<td>'' @ old_v @ ''</td>'') = ''<td>'' @ new_v @ ''</td>''"
    using replace_step_replaces_literal[OF r, of "''<td>''" "''</td>''"] a
    unfolding fst_conv snd_conv by blast
  with r a show ?thesis by blast
qed

text \<open>
  Claim C2. A rule whose old literal does not occur verbatim in the buffer returns the
  buffer as it is (\<open>replace\<close> is total, nothing is raised). A buffer in which none of the
  five old literals occurs is returned unchanged by the whole patcher, and the script run
  on an accessible target file that decodes to such a text ends without error and writes
  that same text back.
\<close>
theorem absent_literal_is_noop:
  "(r \<in> set rules \<longrightarrow> \<not> sublist (fst r) s \<longrightarrow> apply_rule r s = s) \<and>
   ((\<forall>r\<in>set rules. \<not> sublist (fst r) s) \<longrightarrow>
      patcher s = s \<and>
      (files w target_path = Some f \<and> readable f \<and> writable f \<and>
       decode rt (locale_encoding rt (environ w)) (bytes f) = Some s \<longrightarrow>
         run rt w =
           Inr (w\<lparr>files := (files w)(target_path \<mapsto>
             f\<lparr>bytes := encode rt (locale_encoding rt (environ w)) s\<rparr>)\<rparr>)))"
proof (intro conjI impI)
  assume "r \<in> set rules" "\<not> sublist (fst r) s"
  then show "apply_rule r s = s"
    using in_rules[of r] by (simp add: apply_rule_def replace_absent)
next
  assume "\<forall>r\<in>set rules. \<not> sublist (fst r) s"
  then show p: "patcher s = s" by (simp add: rules_absent patcher_absent)
  assume "files w target_path = Some f \<and> readable f \<and> writable f \<and>
       decode rt (locale_encoding rt (environ w)) (bytes f) = Some s"
  with p show "run rt w =
           Inr (w\<lparr>files := (files w)(target_path \<mapsto>
             f\<lparr>bytes := encode rt (locale_encoding rt (environ w)) s\<rparr>)\<rparr>)"
    by (simp add: run_def target_path_def)
qed

theorem absent_literal_is_noop_witness:
  "(old_e, new_e) \<in> set rules \<and>
   \<not> sublist old_v ''<Popup />'' \<and> \<not> sublist old_c ''<Popup />'' \<and>
   \<not> sublist old_e ''<Popup />'' \<and> \<not> sublist old_ed ''<Popup />'' \<and>
   \<not> sublist old_d ''<Popup />'' \<and>
   apply_rule (old_e, new_e) ''<Popup />'' = ''<Popup />'' \<and> patcher ''<Popup />'' = ''<Popup />'' \<and>
   run posix_runtime
     \<lparr>files = [target_path \<mapsto> \<lparr>bytes = ''<Popup />'', readable = True, writable = True\<rparr>],
      argv = [], environ = [''LC_ALL'' \<mapsto> ''C'']\<rparr> =
     Inr \<lparr>files = [target_path \<mapsto> \<lparr>bytes = ''<Popup />'', readable = True, writable = True\<rparr>],
      argv = [], environ = [''LC_ALL'' \<mapsto> ''C'']\<rparr>"
proof -
  let ?f = "\<lparr>bytes = ''<Popup />'', readable = True, writable = True\<rparr>"
  let ?w = "\<lparr>files = [target_path \<mapsto> ?f], argv = [], environ = [''LC_ALL'' \<mapsto> ''C'']\<rparr>"
  have r: "(old_e, new_e) \<in> set rules" by (simp add: rules_def)
  have a: "\<forall>r\<in>set rules. \<not> sublist (fst r) ''<Popup />''"
    unfolding rules_absent by (simp add: short_text_no_block blocks)
  then have b: "\<not> sublist (fst (old_e, new_e)) ''<Popup />''" using r by blast
  have d: "decode posix_runtime (locale_encoding posix_runtime (environ ?w)) (bytes ?f) =
      Some ''<Popup />''"
    by (simp add: posix_runtime_def posix_c posix_decode_def)
  from absent_literal_is_noop[of "(old_e, new_e)" "''<Popup />''" ?w ?f posix_runtime] r a b d
  show ?thesis by (simp add: rules_absent posix_runtime_def posix_encode_def)
qed

text \<open>
  Claim C3, amended. For a buffer made of the five old blocks with text \<open>t0\<close>, ..., \<open>t5\<close>
  before, between and after them, the patcher replaces each of the five blocks by its new
  block and patches every surrounding text on its own. When no surrounding text contains
  any of the five old literals, the result is the five new blocks with the surrounding
  texts untouched.
\<close>
theorem patcher_end_to_end:
  "patcher (t0 @ old_v @ t1 @ old_c @ t2 @ old_e @ t3 @ old_ed @ t4 @ old_d @ t5) =
     patcher t0 @ new_v @ patcher t1 @ new_c @ patcher t2 @ new_e @ patcher t3 @ new_ed @
     patcher t4 @ new_d @ patcher t5 \<and>
   ((\<forall>t\<in>set [t0, t1, t2, t3, t4, t5]. \<forall>r\<in>set rules. \<not> sublist (fst r) t) \<longrightarrow>
    patcher (t0 @ old_v @ t1 @ old_c @ t2 @ old_e @ t3 @ old_ed @ t4 @ old_d @ t5) =
      t0 @ new_v @ t1 @ new_c @ t2 @ new_e @ t3 @ new_ed @ t4 @ new_d @ t5)"
proof -
  have hom: "patcher (t0 @ old_v @ t1 @ old_c @ t2 @ old_e @ t3 @ old_ed @ t4 @ old_d @ t5) =
     patcher t0 @ new_v @ patcher t1 @ new_c @ patcher t2 @ new_e @ patcher t3 @ new_ed @
     patcher t4 @ new_d @ patcher t5"
    by (simp only: patcher_old_v patcher_old_c patcher_old_e patcher_old_ed patcher_old_d)
  moreover have "patcher t = t" if "\<forall>r\<in>set rules. \<not> sublist (fst r) t" for t
    using that by (simp add: rules_absent patcher_absent)
  ultimately show ?thesis by simp
qed

theorem patcher_end_to_end_witness:
  "\<not> sublist old_v ''<tr>'' \<and> \<not> sublist old_c ''; '' \<and> \<not> sublist old_d ''</tr>'' \<and>
   patcher (''<tr>'' @ old_v @ ''; '' @ old_c @ ''; '' @ old_e @ ''; '' @ old_ed @ ''; '' @ old_d @ ''</tr>'') =
     ''<tr>'' @ new_v @ ''; '' @ new_c @ ''; '' @ new_e @ ''; '' @ new_ed @ ''; '' @ new_d @ ''</tr>''"
proof -
  have a: "\<forall>t\<in>set [''<tr>'', ''; '', ''; '', ''; '', ''; '', ''</tr>''].
      \<forall>r\<in>set rules. \<not> sublist (fst r) t"
    unfolding rules_absent by (simp add: short_text_no_block blocks)
  have "patcher (''<tr>'' @ old_v @ ''; '' @ old_c @ ''; '' @ old_e @ ''; '' @ old_ed @ ''; '' @
      old_d @ ''</tr>'') =
     ''<tr>'' @ new_v @ ''; '' @ new_c @ ''; '' @ new_e @ ''; '' @ new_ed @ ''; '' @ new_d @ ''</tr>''"
    using patcher_end_to_end[of "''<tr>''" "''; ''" "''; ''" "''; ''" "''; ''" "''</tr>''"] a
    by blast
  then show ?thesis by (simp add: short_text_no_block blocks)
qed

text \<open>
  The claim C3 as stated, with arbitrary surrounding text, fails: when the surrounding
  text is a second copy of the first old block (in front of the five blocks or right after
  the first of them, and nothing elsewhere), the patcher replaces that copy too, so the
  surrounding text is not left untouched.
\<close>
theorem surrounding_text_counterexample:
  "patcher (old_v @ old_v @ old_c @ old_e @ old_ed @ old_d) \<noteq>
     old_v @ new_v @ new_c @ new_e @ new_ed @ new_d \<and>
   patcher (old_v @ old_v @ old_c @ old_e @ old_ed @ old_d) \<noteq>
     new_v @ old_v @ new_c @ new_e @ new_ed @ new_d"
proof -
  have d: "patcher old_d = new_d"
    using patcher_old_d[of "[]" "[]"] by (simp add: patcher_Nil)
  have ed: "patcher (old_ed @ old_d) = new_ed @ new_d"
    using patcher_old_ed[of "[]" old_d] by (simp add: patcher_Nil d)
  have e: "patcher (old_e @ old_ed @ old_d) = new_e @ new_ed @ new_d"
    using patcher_old_e[of "[]" "old_ed @ old_d"] by (simp add: patcher_Nil ed)
  have c: "patcher (old_c @ old_e @ old_ed @ old_d) = new_c @ new_e @ new_ed @ new_d"
    using patcher_old_c[of "[]" "old_e @ old_ed @ old_d"] by (simp add: patcher_Nil e)
  have v: "patcher (old_v @ old_c @ old_e @ old_ed @ old_d) =
      new_v @ new_c @ new_e @ new_ed @ new_d"
    using patcher_old_v[of "[]" "old_c @ old_e @ old_ed @ old_d"] by (simp add: patcher_Nil c)
  have "patcher (old_v @ old_v @ old_c @ old_e @ old_ed @ old_d) =
      new_v @ new_v @ new_c @ new_e @ new_ed @ new_d"
    using patcher_old_v[of "[]" "old_v @ old_c @ old_e @ old_ed @ old_d"]
    by (simp add: patcher_Nil v)
  moreover have "new_v \<noteq> old_v"
    using agree_old_v_new_v by (auto simp: agree_def)
  ultimately show ?thesis by simp
qed

text \<open>
  Claim C4. For every buffer \<open>s\<close> (in particular one that holds all five old literals) the
  patched buffer contains none of the five old literals, the block of the old delete
  button included, and patching it a second time changes nothing.
\<close>
theorem patcher_idempotent:
  "patcher (patcher s) = patcher s \<and>
   \<not> sublist old_v (patcher s) \<and> \<not> sublist old_c (patcher s) \<and> \<not> sublist old_e (patcher s) \<and>
   \<not> sublist old_ed (patcher s) \<and> \<not> sublist old_d (patcher s)"
  using patcher_removes[of s] patcher_absent[of "patcher s"] by blast

text \<open>
  Claim C5. The patcher is the sequential composition of the five rule substitutions in
  the order visibility toggle, copy, enable/disable, edit, delete, each rule working on the
  output of the rule before it.
\<close>
theorem patcher_is_rule_sequence:
  "patcher s = rule_sequence rules s \<and>
   patcher s =
     apply_rule (old_d, new_d) (apply_rule (old_ed, new_ed) (apply_rule (old_e, new_e)
       (apply_rule (old_c, new_c) (apply_rule (old_v, new_v) s))))"
  by (simp add: patcher_def rules_def apply_rule_def)

text \<open>
  Claim C6. A rule's replace step substitutes every occurrence of its old literal, not only
  the first: a buffer that is a list of segments joined by the old literal, where no
  segment contains the old literal exactly, becomes the same segments joined by the new
  literal. Segments are kept whatever else they contain, so only the exact literal matches.
\<close>
theorem replace_step_replaces_all:
  assumes "r \<in> set rules" and "\<forall>seg\<in>set segs. \<not> sublist (fst r) seg"
  shows "apply_rule r (join (fst r) segs) = join (snd r) segs"
  using in_rules[OF assms(1)] assms(2) by (simp add: apply_rule_def replace_join)

theorem replace_step_replaces_all_witness:
  "(old_c, new_c) \<in> set rules \<and>
   \<not> sublist old_c ''a'' \<and> \<not> sublist old_c ''b'' \<and> \<not> sublist old_c ''c'' \<and>
   apply_rule (old_c, new_c) (''a'' @ old_c @ ''b'' @ old_c @ ''c'') =
     ''a'' @ new_c @ ''b'' @ new_c @ ''c''"
proof -
  have r: "(old_c, new_c) \<in> set rules" by (simp add: rules_def)
  have a: "\<forall>seg\<in>set [''a'', ''b'', ''c'']. \<not> sublist (fst (old_c, new_c)) seg"
    by (simp add: short_text_no_block block_old_c)
  have "apply_rule (old_c, new_c) (join (fst (old_c, new_c)) [''a'', ''b'', ''c'']) =
      join (snd (old_c, new_c)) [''a'', ''b'', ''c'']"
    using r a by (rule replace_step_replaces_all)
  then have "apply_rule (old_c, new_c) (''a'' @ old_c @ ''b'' @ old_c @ ''c'') =
     ''a'' @ new_c @ ''b'' @ new_c @ ''c''" by simp
  with r a show ?thesis by simp
qed

text \<open>
  Claim C7. Rule 5 is the pair of the old and the new delete block. The new block is a
  \<^verbatim>\<open>Popup\<close> whose trigger is a button without any \<^verbatim>\<open>onClick\<close> handler and without
  the call of \<^verbatim>\<open>manageToken\<close>, labelled by \<^verbatim>\<open>aria-label\<close> with a fallback text; the
  popup carries \<^verbatim>\<open>on='click'\<close> and \<^verbatim>\<open>hoverable\<close>; and the popup's child is a second button
  whose \<^verbatim>\<open>onClick\<close> handler calls \<^verbatim>\<open>manageToken(token.id, 'delete', idx)\<close> and whose text
  has a fallback. What the user-interface library does with these properties when the
  page runs is outside this development.
\<close>

theorem new_d_two_step_delete:
  "last rules = (old_d, new_d) \<and>
   new_d =
     ''                  <Popup\<newline>'' @
     ''                    trigger={\<newline>'' @
     new_d_trigger_button @
     ''                    }\<newline>'' @
     new_d_popup_props @
     ''                  >\<newline>'' @
     new_d_confirm_button @
     ''                  </Popup>'' \<and>
   \<not> sublist ''onClick'' new_d_trigger_button \<and>
   \<not> sublist ''manageToken'' new_d_trigger_button \<and>
   sublist ''aria-label={t('common:delete', 'Delete')}'' new_d_trigger_button \<and>
   \<not> sublist ''manageToken'' new_d_popup_props \<and>
   sublist ''on='click'\<newline>'' new_d_popup_props \<and>
   sublist ''hoverable\<newline>'' new_d_popup_props \<and>
   sublist (''onClick={() => {\<newline>'' @
            ''                        manageToken(token.id, 'delete', idx);\<newline>'' @
            ''                      }}\<newline>'') new_d_confirm_button \<and>
   sublist ''{t('token.confirm_delete', 'Delete Token')}'' new_d_confirm_button"
  using new_d_parts trigger_button_facts popup_props_facts confirm_button_facts
  by (simp add: rules_def)

text \<open>
  Claim C8, amended. The script reads and overwrites one path, the relative path
  \<open>target_path\<close>: a run that succeeds has read the target file's bytes and leaves in their
  place the encoding of the patched text, and it leaves every other file, the command line
  and the environment as they were. Changing another file or the command line before the
  run changes nothing in what the run does, and neither does changing the environment as
  long as the locale encoding that \<^verbatim>\<open>open\<close> takes from it stays the same.
\<close>
theorem run_touches_one_path:
  "\<not> prefix ''/'' target_path \<and>
   (run rt w = Inr w' \<longrightarrow>
      (\<exists>f content. files w target_path = Some f \<and>
         decode rt (locale_encoding rt (environ w)) (bytes f) = Some content \<and>
         files w' target_path =
           Some (f\<lparr>bytes := encode rt (locale_encoding rt (environ w)) (patcher content)\<rparr>)) \<and>
      (\<forall>p. p \<noteq> target_path \<longrightarrow> files w' p = files w p) \<and>
      argv w' = argv w \<and> environ w' = environ w) \<and>
   (p \<noteq> target_path \<and> locale_encoding rt e = locale_encoding rt (environ w) \<longrightarrow>
      run rt (w\<lparr>files := (files w)(p := x), argv := a, environ := e\<rparr>) =
        map_sum id (\<lambda>w'. w'\<lparr>files := (files w')(p := x), argv := a, environ := e\<rparr>) (run rt w))"
  by (auto simp: run_def target_path_def fun_upd_twist split: option.splits if_splits)

theorem run_touches_one_path_witness:
  "''README.md'' \<noteq> target_path \<and>
   run posix_runtime
     \<lparr>files = [target_path \<mapsto> \<lparr>bytes = old_d, readable = True, writable = True\<rparr>,
               ''README.md'' \<mapsto> \<lparr>bytes = ''y'', readable = False, writable = False\<rparr>],
      argv = [''--dry-run''], environ = [''LC_ALL'' \<mapsto> ''en_US.ISO-8859-1'']\<rparr> =
     Inr \<lparr>files = [target_path \<mapsto> \<lparr>bytes = new_d, readable = True, writable = True\<rparr>,
               ''README.md'' \<mapsto> \<lparr>bytes = ''y'', readable = False, writable = False\<rparr>],
      argv = [''--dry-run''], environ = [''LC_ALL'' \<mapsto> ''en_US.ISO-8859-1'']\<rparr>"
proof -
  let ?w = "\<lparr>files = [target_path \<mapsto> \<lparr>bytes = old_d, readable = True, writable = True\<rparr>],
      argv = [], environ = [''LANG'' \<mapsto> ''en_US.ISO-8859-1'']\<rparr>"
  have ne: "''README.md'' \<noteq> target_path" by (simp add: target_path_def)
  have d: "patcher old_d = new_d"
    using patcher_only_old_d[of "[]"] by (simp add: patcher_Nil)
  have base: "run posix_runtime ?w =
      Inr \<lparr>files = [target_path \<mapsto> \<lparr>bytes = new_d, readable = True, writable = True\<rparr>],
        argv = [], environ = [''LANG'' \<mapsto> ''en_US.ISO-8859-1'']\<rparr>"
    by (simp add: run_def target_path_def posix_runtime_def posix_iso posix_decode_def
        posix_encode_def universal_newlines_id no_CR_old_d d)
  have enc: "locale_encoding posix_runtime [''LC_ALL'' \<mapsto> ''en_US.ISO-8859-1''] =
      locale_encoding posix_runtime (environ ?w)"
    by (simp add: posix_runtime_def posix_iso)
  from run_touches_one_path[where rt = posix_runtime and w = ?w and p = "''README.md''"
      and x = "Some \<lparr>bytes = ''y'', readable = False, writable = False\<rparr>"
      and a = "[''--dry-run'']" and e = "[''LC_ALL'' \<mapsto> ''en_US.ISO-8859-1'']"] ne enc
  have "run posix_runtime
      (?w\<lparr>files := (files ?w)(''README.md'' \<mapsto> \<lparr>bytes = ''y'', readable = False, writable = False\<rparr>),
         argv := [''--dry-run''], environ := [''LC_ALL'' \<mapsto> ''en_US.ISO-8859-1'']\<rparr>) =
      map_sum id (\<lambda>w'. w'\<lparr>files := (files w')(''README.md'' \<mapsto>
          \<lparr>bytes = ''y'', readable = False, writable = False\<rparr>),
         argv := [''--dry-run''], environ := [''LC_ALL'' \<mapsto> ''en_US.ISO-8859-1'']\<rparr>)
        (run posix_runtime ?w)"
    by blast
  with base ne show ?thesis by (simp add: fun_upd_twist)
qed

text \<open>
  The claim C8 as stated, that no environment variable is consumed, fails: neither
  \<^verbatim>\<open>open\<close> call names an encoding, so the locale variables decide the codec. The same
  world with \<^verbatim>\<open>LC_ALL\<close> set to an ISO-8859-1 locale and set to \<^verbatim>\<open>C\<close>: the first run rewrites
  the file, the second raises \<^verbatim>\<open>UnicodeDecodeError\<close> at the byte 0xE9.
\<close>
theorem environment_counterexample:
  "run posix_runtime
     \<lparr>files = [target_path \<mapsto> \<lparr>bytes = ''caf'' @ [CHR 0xE9], readable = True, writable = True\<rparr>],
      argv = [], environ = [''LC_ALL'' \<mapsto> ''en_US.ISO-8859-1'']\<rparr> =
     Inr \<lparr>files = [target_path \<mapsto> \<lparr>bytes = ''caf'' @ [CHR 0xE9], readable = True, writable = True\<rparr>],
      argv = [], environ = [''LC_ALL'' \<mapsto> ''en_US.ISO-8859-1'']\<rparr> \<and>
   run posix_runtime
     \<lparr>files = [target_path \<mapsto> \<lparr>bytes = ''caf'' @ [CHR 0xE9], readable = True, writable = True\<rparr>],
      argv = [], environ = [''LC_ALL'' \<mapsto> ''C'']\<rparr> =
     Inl UnicodeDecodeError"
proof -
  have "patcher (''caf'' @ [CHR 0xE9]) = ''caf'' @ [CHR 0xE9]"
    by (rule patcher_short) simp
  then show ?thesis
    by (simp add: run_def target_path_def posix_runtime_def posix_iso posix_c posix_decode_def
        posix_encode_def)
qed

text \<open>
  Claim C9. Each of the five new literals is strictly longer than its old literal, and the
  patcher's output is never shorter than its input.
\<close>
theorem patcher_never_shortens:
  "length old_v < length new_v \<and> length old_c < length new_c \<and> length old_e < length new_e \<and>
   length old_ed < length new_ed \<and> length old_d < length new_d \<and>
   length s \<le> length (patcher s)"
proof -
  have "length s \<le> length (replace s old_v new_v)"
    by (simp add: length_replace new_longer less_imp_le)
  also have "\<dots> \<le> length (replace (replace s old_v new_v) old_c new_c)"
    by (simp add: length_replace new_longer less_imp_le)
  also have "\<dots> \<le> length (replace (replace (replace s old_v new_v) old_c new_c) old_e new_e)"
    by (simp add: length_replace new_longer less_imp_le)
  also have "\<dots> \<le> length (replace (replace (replace (replace s old_v new_v) old_c new_c)
      old_e new_e) old_ed new_ed)"
    by (simp add: length_replace new_longer less_imp_le)
  also have "\<dots> \<le> length (replace (replace (replace (replace (replace s old_v new_v) old_c new_c)
      old_e new_e) old_ed new_ed) old_d new_d)"
    by (simp add: length_replace new_longer less_imp_le)
  finally have "length s \<le> length (patcher s)" by (simp add: patcher_def)
  with new_longer show ?thesis by simp
qed




end
